theory Spec2Isabelle
  imports Main "HOL-Library.Char_ord" "HOL-Library.List_Lexorder"
begin

section \<open>Advisory certificates: canonical serialization, signing, verification, issuance\<close>

text \<open>
  A shallow embedding of \<^verbatim>\<open>node-server/helpers/signage.js\<close> (\<^verbatim>\<open>signPayload\<close>,
  \<^verbatim>\<open>verifySignature\<close>) and of the \<^verbatim>\<open>/certify\<close> handler and the key bootstrap block of the
  node server.  The JavaScript built-ins the code calls (\<^verbatim>\<open>Object.keys\<close>,
  \<^verbatim>\<open>Array.prototype.sort\<close>, \<^verbatim>\<open>JSON.stringify\<close> with an array replacer, the base64 codec of
  \<^verbatim>\<open>Buffer\<close>) are written out following ECMA-262 and the Node.js implementation.  The RSA
  primitives of Node's \<^verbatim>\<open>crypto\<close> module, the PDF renderer and the clock are parameters.
\<close>

subsection \<open>JavaScript values\<close>

text \<open>
  The values a payload is built from: what the JSON body parser produces, plus
  \<^verbatim>\<open>undefined\<close> (a field the request left out).  A string is a list of code units, here
  restricted to the range of \<^typ>\<open>char\<close>; a number is an integer in the safe range.  An
  object is the list of its own properties in property order; property lookup is
  own-property lookup (plain data objects).
\<close>

datatype json =
    JUndefined
  | JNull
  | JBool bool
  | JNum int
  | JString string
  | JArray "json list"
  | JObject "(string \<times> json) list"

text \<open>The exceptions: the \<^verbatim>\<open>TypeError\<close> of the language, the system errors of \<^verbatim>\<open>fs\<close>, an
  error of the \<^verbatim>\<open>crypto\<close> module (a key it cannot parse) and an error of PDFKit.  The
  code defines no exception of its own.\<close>

datatype js_error =
    TypeError
  | ENOENT
  | EISDIR
  | EEXIST
  | ENOTDIR
  | CryptoError
  | RenderError

subsection \<open>Number and string rendering\<close>

fun show_nat :: "nat \<Rightarrow> string" where
  "show_nat n =
     (if n < 10 then [char_of (48 + n)]
      else show_nat (n div 10) @ [char_of (48 + n mod 10)])"

declare show_nat.simps [simp del]

text \<open>Number::toString on the numbers of the model, the safe integers (absolute value
  at most \<open>2\<^sup>5\<^sup>3 - 1\<close>): the decimal digits.  JavaScript writes exponent form from
  \<open>10\<^sup>2\<^sup>1\<close> on, which no safe integer reaches; an \<^typ>\<open>int\<close> beyond the safe range
  stands for no JavaScript number.\<close>

definition Number_toString :: "int \<Rightarrow> string" where
  "Number_toString i =
     (if i < 0 then CHR ''-'' # show_nat (nat (- i)) else show_nat (nat i))"

definition hex_digit :: "nat \<Rightarrow> char" where
  "hex_digit d = (if d < 10 then char_of (48 + d) else char_of (87 + d))"

text \<open>ECMA-262 QuoteJSONString: the two-character escapes, \<^verbatim>\<open>\u00xx\<close> for the other
  control characters, every other code unit as it is.\<close>

definition quote_char :: "char \<Rightarrow> string" where
  "quote_char c =
     (if c = CHR 0x08 then [CHR 0x5C, CHR ''b'']
      else if c = CHR 0x09 then [CHR 0x5C, CHR ''t'']
      else if c = CHR 0x0A then [CHR 0x5C, CHR ''n'']
      else if c = CHR 0x0C then [CHR 0x5C, CHR ''f'']
      else if c = CHR 0x0D then [CHR 0x5C, CHR ''r'']
      else if c = CHR 0x22 then [CHR 0x5C, CHR 0x22]
      else if c = CHR 0x5C then [CHR 0x5C, CHR 0x5C]
      else if (of_char c :: nat) < 32
        then [CHR 0x5C, CHR ''u'', CHR ''0'', CHR ''0'',
              hex_digit (of_char c div 16), hex_digit (of_char c mod 16)]
      else [c])"

definition QuoteJSONString :: "string \<Rightarrow> string" where
  "QuoteJSONString s = [CHR 0x22] @ concat (map quote_char s) @ [CHR 0x22]"

fun join :: "string \<Rightarrow> string list \<Rightarrow> string" where
  "join sep [] = []"
| "join sep [x] = x"
| "join sep (x # y # ys) = x @ sep @ join sep (y # ys)"

subsection \<open>\<^verbatim>\<open>JSON.stringify(value, replacerArray, space)\<close>\<close>

text \<open>
  ECMA-262 SerializeJSONObject and SerializeJSONArray, final assembly: \<open>members\<close> are the
  (name, serialized value) pairs that were not skipped, in the order they are written.
\<close>

definition object_text :: "string \<Rightarrow> string \<Rightarrow> (string \<times> string) list \<Rightarrow> string" where
  "object_text gap stepback members =
     (let indent = stepback @ gap;
          partial = map (\<lambda>(P, strP).
                      QuoteJSONString P @ (if gap = [] then '':'' else '': '') @ strP) members
      in if partial = [] then ''{}''
         else if gap = [] then ''{'' @ join '','' partial @ ''}''
         else ''{'' @ [CHR 0x0A] @ indent @ join ('','' @ [CHR 0x0A] @ indent) partial
                @ [CHR 0x0A] @ stepback @ ''}'')"

definition array_text :: "string \<Rightarrow> string \<Rightarrow> string list \<Rightarrow> string" where
  "array_text gap stepback partial =
     (let indent = stepback @ gap
      in if partial = [] then ''[]''
         else if gap = [] then ''['' @ join '','' partial @ '']''
         else ''['' @ [CHR 0x0A] @ indent @ join ('','' @ [CHR 0x0A] @ indent) partial
                @ [CHR 0x0A] @ stepback @ '']'')"

lemma size_map_of:
  "map_of fs P = Some v \<Longrightarrow> size v < Suc (size_list (size_prod (\<lambda>_. 0) size) fs)"
  by (induction fs) (auto split: if_splits)

text \<open>
  ECMA-262 SerializeJSONProperty with a property list \<open>K\<close> (the replacer array): an object
  at any depth writes, for each name of \<open>K\<close> in the order of \<open>K\<close>, the property of that
  name if it has one whose value is serializable; an array writes every element, an
  unserializable one as \<^verbatim>\<open>null\<close>.  \<open>None\<close> is JavaScript's \<^verbatim>\<open>undefined\<close>.
\<close>

function SerializeJSONProperty :: "string list \<Rightarrow> string \<Rightarrow> string \<Rightarrow> json \<Rightarrow> string option" where
  "SerializeJSONProperty K gap indent JUndefined = None"
| "SerializeJSONProperty K gap indent JNull = Some ''null''"
| "SerializeJSONProperty K gap indent (JBool b) = Some (if b then ''true'' else ''false'')"
| "SerializeJSONProperty K gap indent (JNum i) = Some (Number_toString i)"
| "SerializeJSONProperty K gap indent (JString s) = Some (QuoteJSONString s)"
| "SerializeJSONProperty K gap indent (JArray xs) =
     Some (array_text gap indent
       (map (\<lambda>x. case SerializeJSONProperty K gap (indent @ gap) x of
                    None \<Rightarrow> ''null'' | Some strP \<Rightarrow> strP) xs))"
| "SerializeJSONProperty K gap indent (JObject fs) =
     Some (object_text gap indent
       (List.map_filter
          (\<lambda>P. case map_of fs P of
                  None \<Rightarrow> None
                | Some v \<Rightarrow> map_option (Pair P) (SerializeJSONProperty K gap (indent @ gap) v))
          K))"
  by pat_completeness auto

termination
proof (relation "measure (\<lambda>(K, gap, indent, v). size v)")
  fix xs :: "json list" and x
  assume "x \<in> set xs"
  then have "size x < Suc (size_list size xs)"
    by (induction xs) auto
  then show "((K, gap, indent @ gap, x), (K, gap, indent, JArray xs))
      \<in> measure (\<lambda>(K, gap, indent, v). size v)"
    for K :: "string list" and gap indent :: string
    by simp
next
  fix fs :: "(string \<times> json) list" and P v
  assume "map_of fs P = Some v"
  then show "((K, gap, indent @ gap, v), (K, gap, indent, JObject fs))
      \<in> measure (\<lambda>(K, gap, indent, v). size v)"
    for K :: "string list" and gap indent :: string
    using size_map_of [of fs P v] by simp
qed simp


text \<open>The property list of an array replacer: its elements, each kept at its first
  occurrence.\<close>

definition PropertyList :: "string list \<Rightarrow> string list" where
  "PropertyList ks = foldl (\<lambda>acc k. if k \<in> set acc then acc else acc @ [k]) [] ks"

definition JSON_stringify :: "json \<Rightarrow> string list \<Rightarrow> nat \<Rightarrow> string option" where
  "JSON_stringify v replacer space =
     SerializeJSONProperty (PropertyList replacer) (replicate (min 10 space) CHR '' '') [] v"

text \<open>\<^verbatim>\<open>Object.keys\<close>: a \<^verbatim>\<open>TypeError\<close> on \<^verbatim>\<open>undefined\<close> and \<^verbatim>\<open>null\<close>, the indices
  of a string or an array, the own property names of an object.\<close>

fun Object_keys :: "json \<Rightarrow> js_error + string list" where
  "Object_keys JUndefined = Inl TypeError"
| "Object_keys JNull = Inl TypeError"
| "Object_keys (JBool b) = Inr []"
| "Object_keys (JNum i) = Inr []"
| "Object_keys (JString s) = Inr (map show_nat [0..<length s])"
| "Object_keys (JArray xs) = Inr (map show_nat [0..<length xs])"
| "Object_keys (JObject fs) = Inr (map fst fs)"

text \<open>
  Lines 9 and 21 of \<^verbatim>\<open>signage.js\<close> are the same expression,
  \<^verbatim>\<open>JSON.stringify(payload, Object.keys(payload).sort(), 2)\<close>.  The default
  \<^verbatim>\<open>sort()\<close> orders strings by code units, which is the lexicographic order on
  \<^typ>\<open>string\<close>.
\<close>

definition canonical_data :: "json \<Rightarrow> js_error + string option" where
  "canonical_data payload =
     (case Object_keys payload of
        Inl e \<Rightarrow> Inl e
      | Inr ks \<Rightarrow> Inr (JSON_stringify payload (sort ks) 2))"

subsection \<open>The base64 codec of \<^verbatim>\<open>Buffer\<close>\<close>

text \<open>
  A byte is a \<^typ>\<open>char\<close>.  Encoding is RFC 4648 with padding.  Decoding is Node's lenient
  one: it never throws; it stops at the first \<^verbatim>\<open>=\<close>, skips every character outside the
  alphabet (the URL-safe \<^verbatim>\<open>-\<close> and \<^verbatim>\<open>_\<close> count as 62 and 63), and drops the bits of
  an incomplete last byte.
\<close>

definition base64_alphabet :: string where
  "base64_alphabet = ''ABCDEFGHIJKLMNOPQRSTUVWXYZabcdefghijklmnopqrstuvwxyz0123456789+/''"

definition base64_char :: "nat \<Rightarrow> char" where
  "base64_char n = base64_alphabet ! n"

fun base64_groups :: "nat list \<Rightarrow> string" where
  "base64_groups (a # b # c # bs) =
     [base64_char (a div 4), base64_char ((a mod 4) * 16 + b div 16),
      base64_char ((b mod 16) * 4 + c div 64), base64_char (c mod 64)] @ base64_groups bs"
| "base64_groups [a, b] =
     [base64_char (a div 4), base64_char ((a mod 4) * 16 + b div 16),
      base64_char ((b mod 16) * 4), CHR ''='']"
| "base64_groups [a] =
     [base64_char (a div 4), base64_char ((a mod 4) * 16), CHR ''='', CHR ''='']"
| "base64_groups [] = []"

definition base64_encode :: "string \<Rightarrow> string" where
  "base64_encode bytes = base64_groups (map of_char bytes)"

fun index_of :: "'a \<Rightarrow> 'a list \<Rightarrow> nat option" where
  "index_of x [] = None"
| "index_of x (y # ys) = (if x = y then Some 0 else map_option Suc (index_of x ys))"

definition unbase64 :: "char \<Rightarrow> nat option" where
  "unbase64 c =
     (if c = CHR ''-'' then Some 62 else if c = CHR ''_'' then Some 63
      else index_of c base64_alphabet)"

fun unbase64_groups :: "nat list \<Rightarrow> string" where
  "unbase64_groups (a # b # c # d # rest) =
     [char_of (a * 4 + b div 16), char_of ((b mod 16) * 16 + c div 4),
      char_of ((c mod 4) * 64 + d)] @ unbase64_groups rest"
| "unbase64_groups [a, b, c] =
     [char_of (a * 4 + b div 16), char_of ((b mod 16) * 16 + c div 4)]"
| "unbase64_groups [a, b] = [char_of (a * 4 + b div 16)]"
| "unbase64_groups [a] = []"
| "unbase64_groups [] = []"

definition base64_sextets :: "string \<Rightarrow> nat list" where
  "base64_sextets s = List.map_filter unbase64 (takeWhile (\<lambda>c. c \<noteq> CHR ''='') s)"

definition base64_decode :: "string \<Rightarrow> string" where
  "base64_decode s = unbase64_groups (base64_sextets s)"

subsection \<open>The file system\<close>

text \<open>
  Paths are relative to the directory of the node server; \<^verbatim>\<open>signage.js\<close> and the
  bootstrap block name the same two key files.  The empty path is that directory itself.
\<close>

datatype node = File string | Directory

type_synonym filesystem = "string \<rightharpoonup> node"

definition CERTS_DIR :: string where "CERTS_DIR = ''certs''"
definition PRIVATE_PEM :: string where "PRIVATE_PEM = ''certs/private.pem''"
definition PUBLIC_PEM :: string where "PUBLIC_PEM = ''certs/public.pem''"

definition dirname :: "string \<Rightarrow> string" where
  "dirname p = butlast (rev (dropWhile (\<lambda>c. c \<noteq> CHR ''/'') (rev p)))"

definition existsSync :: "filesystem \<Rightarrow> string \<Rightarrow> bool" where
  "existsSync fs p = (fs p \<noteq> None)"

text \<open>Reading and writing look at the parent directory first: a path below a regular
  file gives \<^verbatim>\<open>ENOTDIR\<close>, a path below nothing gives \<^verbatim>\<open>ENOENT\<close>.\<close>

definition readFileSync :: "filesystem \<Rightarrow> string \<Rightarrow> js_error + string" where
  "readFileSync fs p =
     (case fs (dirname p) of
        None \<Rightarrow> Inl ENOENT
      | Some (File d') \<Rightarrow> Inl ENOTDIR
      | Some Directory \<Rightarrow>
          (case fs p of
             None \<Rightarrow> Inl ENOENT
           | Some Directory \<Rightarrow> Inl EISDIR
           | Some (File d) \<Rightarrow> Inr d))"

definition mkdirSync :: "filesystem \<Rightarrow> string \<Rightarrow> js_error + filesystem" where
  "mkdirSync fs p =
     (case fs (dirname p) of
        None \<Rightarrow> Inl ENOENT
      | Some (File d) \<Rightarrow> Inl ENOTDIR
      | Some Directory \<Rightarrow>
          (case fs p of Some n \<Rightarrow> Inl EEXIST | None \<Rightarrow> Inr (fs(p \<mapsto> Directory))))"

definition writeFileSync :: "filesystem \<Rightarrow> string \<Rightarrow> string \<Rightarrow> js_error + filesystem" where
  "writeFileSync fs p d =
     (case fs (dirname p) of
        None \<Rightarrow> Inl ENOENT
      | Some (File d') \<Rightarrow> Inl ENOTDIR
      | Some Directory \<Rightarrow>
          (case fs p of Some Directory \<Rightarrow> Inl EISDIR | _ \<Rightarrow> Inr (fs(p \<mapsto> File d))))"

subsection \<open>The \<^verbatim>\<open>crypto\<close> module\<close>

text \<open>
  The RSA primitives are parameters.  \<open>rsa_sign key data\<close> is
  \<^verbatim>\<open>createSign('SHA256').update(data).sign(key)\<close> as bytes, \<open>rsa_verify key data sig\<close> is
  \<^verbatim>\<open>createVerify('SHA256').update(data).verify(key, sig)\<close>; both throw on a key they cannot
  parse.  \<open>generateKeyPairSync bits entropy\<close> is the pair of PEM texts (private as PKCS#1,
  public as SPKI) of a fresh RSA key pair of the given modulus length.
\<close>

record crypto =
  rsa_sign :: "string \<Rightarrow> string \<Rightarrow> js_error + string"
  rsa_verify :: "string \<Rightarrow> string \<Rightarrow> string \<Rightarrow> js_error + bool"
  generateKeyPairSync :: "nat \<Rightarrow> nat \<Rightarrow> string \<times> string"

subsection \<open>\<^verbatim>\<open>signage.js\<close>\<close>

record signed_package =
  payload :: json
  signature :: string
  signed_at :: string

text \<open>\<open>now\<close> is what \<^verbatim>\<open>new Date().toISOString()\<close> returns at line 15.\<close>

definition signPayload :: "crypto \<Rightarrow> filesystem \<Rightarrow> string \<Rightarrow> json \<Rightarrow> js_error + signed_package" where
  "signPayload c fs now p =
     (case canonical_data p of
        Inl e \<Rightarrow> Inl e
      | Inr None \<Rightarrow> Inl TypeError
      | Inr (Some data) \<Rightarrow>
          (case readFileSync fs PRIVATE_PEM of
             Inl e \<Rightarrow> Inl e
           | Inr privateKey \<Rightarrow>
               (case rsa_sign c privateKey data of
                  Inl e \<Rightarrow> Inl e
                | Inr sig \<Rightarrow>
                    Inr \<lparr>payload = p, signature = base64_encode sig, signed_at = now\<rparr>)))"

definition verifySignature :: "crypto \<Rightarrow> filesystem \<Rightarrow> signed_package \<Rightarrow> js_error + bool" where
  "verifySignature c fs signedPackage =
     (case readFileSync fs PUBLIC_PEM of
        Inl e \<Rightarrow> Inl e
      | Inr publicKey \<Rightarrow>
          (case canonical_data (payload signedPackage) of
             Inl e \<Rightarrow> Inl e
           | Inr None \<Rightarrow> Inl TypeError
           | Inr (Some data) \<Rightarrow>
               rsa_verify c publicKey data (base64_decode (signature signedPackage))))"

subsection \<open>The \<^verbatim>\<open>/certify\<close> handler\<close>

text \<open>Property read on a value that is neither \<^verbatim>\<open>null\<close> nor \<^verbatim>\<open>undefined\<close>, for the
  names the handler reads (none of them is a built-in property of a string, a number or
  an array).\<close>

fun Get :: "json \<Rightarrow> string \<Rightarrow> json" where
  "Get (JObject fs) k = (case map_of fs k of None \<Rightarrow> JUndefined | Some v \<Rightarrow> v)"
| "Get v k = JUndefined"

fun falsy :: "json \<Rightarrow> bool" where
  "falsy JUndefined = True"
| "falsy JNull = True"
| "falsy (JBool b) = (\<not> b)"
| "falsy (JNum i) = (i = 0)"
| "falsy (JString s) = (s = [])"
| "falsy (JArray xs) = False"
| "falsy (JObject fs) = False"

text \<open>A destructuring default applies to \<^verbatim>\<open>undefined\<close> only.\<close>

definition default_to :: "json \<Rightarrow> json \<Rightarrow> json" where
  "default_to d v = (if v = JUndefined then d else v)"

datatype response_body =
    ErrorJson string "js_error option"
  | CertifyJson signed_package string

record response =
  status :: nat
  body :: response_body

text \<open>
  The calls into PDFKit are parameters: \<open>pdf_open\<close> stands for lines 158 to 170 (the
  document is created and the query and answer are written), \<open>pdf_close\<close> for lines 174
  to 176; each gives the exception it throws, if any.  The three clock readings of one
  request are the issuance time of line 150, the signing time of \<^verbatim>\<open>signPayload\<close> and
  \<^verbatim>\<open>Date.now()\<close> of line 157.
\<close>

record pdfkit =
  pdf_open :: "string \<Rightarrow> json \<Rightarrow> js_error option"
  pdf_close :: "string \<Rightarrow> signed_package \<Rightarrow> js_error option"

record clock =
  issued_now :: string
  signed_now :: string
  now_ms :: nat

text \<open>
  Whether converting a value to a string throws (ECMA-262 OrdinaryToPrimitive on plain
  data): an object with an own property \<^verbatim>\<open>toString\<close> has no callable \<^verbatim>\<open>toString\<close>, and
  the inherited \<^verbatim>\<open>valueOf\<close> returns the object itself, so the conversion throws a
  \<^verbatim>\<open>TypeError\<close>; any other object gives \<^verbatim>\<open>[object Object]\<close>.  An array joins the
  strings of its elements, \<^verbatim>\<open>null\<close> and \<^verbatim>\<open>undefined\<close> as the empty string.
\<close>

fun ToString_throws :: "json \<Rightarrow> bool" where
  "ToString_throws (JObject fs) = (''toString'' \<in> set (map fst fs))"
| "ToString_throws (JArray xs) = (\<exists>x \<in> set xs. ToString_throws x)"
| "ToString_throws v = False"

text \<open>
  Line 172, for one entry \<open>s\<close> of \<^verbatim>\<open>sources\<close>: reading a property of \<^verbatim>\<open>null\<close> or
  \<^verbatim>\<open>undefined\<close> throws; the template string converts
  \<^verbatim>\<open>s.id || s.title || 'source'\<close> to a string; \<^verbatim>\<open>slice\<close> exists on strings and arrays
  only, and the slice of an array (its first 200 elements) is converted to a string too.
  Writing the line into the open document is taken not to throw.
\<close>

definition source_line :: "json \<Rightarrow> js_error option" where
  "source_line s =
     (if s = JNull \<or> s = JUndefined then Some TypeError
      else let label = (if \<not> falsy (Get s ''id'') then Get s ''id''
                        else if \<not> falsy (Get s ''title'') then Get s ''title''
                        else JString ''source'');
               excerpt = Get s ''excerpt''
           in if ToString_throws label then Some TypeError
              else if falsy excerpt then None
              else (case excerpt of
                      JString t \<Rightarrow> None
                    | JArray xs \<Rightarrow>
                        if ToString_throws (JArray (take 200 xs)) then Some TypeError else None
                    | _ \<Rightarrow> Some TypeError))"

text \<open>Lines 171 to 173: \<^verbatim>\<open>(sources || []).forEach(...)\<close>; only an array has
  \<^verbatim>\<open>forEach\<close>.\<close>

definition sources_lines :: "json \<Rightarrow> js_error option" where
  "sources_lines sources =
     (if falsy sources then None
      else (case sources of
              JArray xs \<Rightarrow>
                (case List.map_filter source_line xs of [] \<Rightarrow> None | e # es \<Rightarrow> Some e)
            | _ \<Rightarrow> Some TypeError))"

definition create_pdf :: "pdfkit \<Rightarrow> string \<Rightarrow> json \<Rightarrow> json \<Rightarrow> signed_package \<Rightarrow> js_error option" where
  "create_pdf lib pdfPath p sources signed =
     (case pdf_open lib pdfPath p of
        Some e \<Rightarrow> Some e
      | None \<Rightarrow>
          (case sources_lines sources of
             Some e \<Rightarrow> Some e
           | None \<Rightarrow> pdf_close lib pdfPath signed))"

text \<open>Lines 141 and 144 to 151: the payload assembled from the request body.  Destructuring
  a body that is \<^verbatim>\<open>undefined\<close> or \<^verbatim>\<open>null\<close> throws inside the \<^verbatim>\<open>try\<close> block.\<close>

definition certify_payload :: "clock \<Rightarrow> json \<Rightarrow> json" where
  "certify_payload clk req_body =
     JObject [(''user_id'', default_to (JString ''anonymous'') (Get req_body ''user_id'')),
              (''query_text'', Get req_body ''query_text''),
              (''lang'', default_to (JString ''ml'') (Get req_body ''lang'')),
              (''answer_text'', Get req_body ''answer_text''),
              (''sources'', Get req_body ''sources''),
              (''issued_at'', JString (issued_now clk))]"

definition pdf_path :: "clock \<Rightarrow> string" where
  "pdf_path clk = ''certs/cert_'' @ show_nat (now_ms clk) @ ''.pdf''"

definition certify :: "crypto \<Rightarrow> pdfkit \<Rightarrow> filesystem \<Rightarrow> clock \<Rightarrow> json \<Rightarrow> response" where
  "certify c lib fs clk req_body =
     (if req_body = JUndefined \<or> req_body = JNull
      then \<lparr>status = 500, body = ErrorJson ''certify failed'' (Some TypeError)\<rparr>
      else if falsy (Get req_body ''query_text'') \<or> falsy (Get req_body ''answer_text'')
      then \<lparr>status = 400, body = ErrorJson ''query_text and answer_text required'' None\<rparr>
      else
        (case signPayload c fs (signed_now clk) (certify_payload clk req_body) of
           Inl e \<Rightarrow> \<lparr>status = 500, body = ErrorJson ''certify failed'' (Some e)\<rparr>
         | Inr signed \<Rightarrow>
             (case create_pdf lib (pdf_path clk) (certify_payload clk req_body)
                     (Get req_body ''sources'') signed of
                Some e \<Rightarrow> \<lparr>status = 500, body = ErrorJson ''certify failed'' (Some e)\<rparr>
              | None \<Rightarrow>
                  \<lparr>status = 200, body = CertifyJson signed (''/'' @ pdf_path clk)\<rparr>)))"

subsection \<open>Key bootstrap\<close>

text \<open>
  Lines 201 to 211, run once when the server starts.  The result is the file system the
  block leaves behind and the exception that ended it, if any.
\<close>

definition key_bootstrap :: "crypto \<Rightarrow> nat \<Rightarrow> filesystem \<Rightarrow> filesystem \<times> js_error option" where
  "key_bootstrap c entropy fs =
     (case (if \<not> existsSync fs CERTS_DIR then mkdirSync fs CERTS_DIR else Inr fs) of
        Inl e \<Rightarrow> (fs, Some e)
      | Inr fs1 \<Rightarrow>
          if \<not> existsSync fs1 PRIVATE_PEM \<or> \<not> existsSync fs1 PUBLIC_PEM then
            (case generateKeyPairSync c 2048 entropy of
               (privateKey, publicKey) \<Rightarrow>
                 (case writeFileSync fs1 PRIVATE_PEM privateKey of
                    Inl e \<Rightarrow> (fs1, Some e)
                  | Inr fs2 \<Rightarrow>
                      (case writeFileSync fs2 PUBLIC_PEM publicKey of
                         Inl e \<Rightarrow> (fs2, Some e)
                       | Inr fs3 \<Rightarrow> (fs3, None))))
          else (fs1, None))"

subsection \<open>Assumptions on the RSA primitives and a concrete instance\<close>

text \<open>A key pair is matching when every text can be signed with the private key and the
  signature verifies under the public key.\<close>

definition matching_keypair :: "crypto \<Rightarrow> string \<Rightarrow> string \<Rightarrow> bool" where
  "matching_keypair c privateKey publicKey =
     (\<forall>data. \<exists>sig. rsa_sign c privateKey data = Inr sig
                    \<and> rsa_verify c publicKey data sig = Inr True)"

text \<open>
  The idealised signature scheme: signing never fails, RSASSA-PKCS1-v1_5 is deterministic
  so the only signature that verifies for a text is the one signing gives, and no two
  texts share a signature (no collision of the digest).
\<close>

definition ideal_keypair :: "crypto \<Rightarrow> string \<Rightarrow> string \<Rightarrow> bool" where
  "ideal_keypair c privateKey publicKey =
     ((\<forall>data. \<exists>sig. rsa_sign c privateKey data = Inr sig)
      \<and> (\<forall>data sig. rsa_verify c publicKey data sig = Inr (rsa_sign c privateKey data = Inr sig))
      \<and> inj (rsa_sign c privateKey))"

text \<open>
  A concrete scheme for closed examples: the key pair generated from entropy \<open>n\<close> has the
  decimal text of \<open>n\<close> as both halves, the signature of a text is the key followed by the
  text, and verification recomputes it.
\<close>

definition demo_crypto :: crypto where
  "demo_crypto =
     \<lparr>rsa_sign = (\<lambda>key data. Inr (key @ data)),
      rsa_verify = (\<lambda>key data sig. Inr (sig = key @ data)),
      generateKeyPairSync = (\<lambda>bits entropy. (show_nat entropy, show_nat entropy))\<rparr>"

definition demo_pdfkit :: pdfkit where
  "demo_pdfkit = \<lparr>pdf_open = (\<lambda>pdfPath p. None), pdf_close = (\<lambda>pdfPath signed. None)\<rparr>"

definition demo_clock :: clock where
  "demo_clock =
     \<lparr>issued_now = ''2024-01-01T00:00:00.000Z'', signed_now = ''2024-01-01T00:00:00.001Z'',
      now_ms = 1704\<rparr>"

definition demo_fs :: filesystem where
  "demo_fs = [[] \<mapsto> Directory, CERTS_DIR \<mapsto> Directory,
              PRIVATE_PEM \<mapsto> File ''42'', PUBLIC_PEM \<mapsto> File ''42'']"

text \<open>A payload as the handler assembles it, with one cited source, and a short payload
  with one source.\<close>

definition cited_payload :: "string \<Rightarrow> json" where
  "cited_payload excerpt =
     JObject [(''user_id'', JString ''anonymous''),
              (''query_text'', JString ''When to sow rice?''),
              (''lang'', JString ''ml''),
              (''answer_text'', JString ''Sow after first monsoon rain.''),
              (''sources'', JArray [JObject [(''id'', JString ''doc1''),
                                             (''title'', JString ''Rice calendar''),
                                             (''excerpt'', JString excerpt)]]),
              (''issued_at'', JString ''2024-01-01T00:00:00.000Z'')]"

definition one_source_payload :: "json \<Rightarrow> (string \<times> json) list" where
  "one_source_payload src =
     [(''query_text'', JString ''q''), (''answer_text'', JString ''a''),
      (''sources'', JArray [src])]"

text \<open>The payload of the concrete scenario of the specification, with the answer text
  as parameter; the file system of a fresh installation and the one the bootstrap leaves
  with entropy 7; a request whose \<^verbatim>\<open>sources\<close> is not an array.\<close>

definition scenario_payload :: "string \<Rightarrow> json" where
  "scenario_payload answer =
     JObject [(''query_text'', JString ''When to sow rice?''),
              (''answer_text'', JString answer),
              (''lang'', JString ''ml'')]"

definition fresh_install :: filesystem where
  "fresh_install = [[] \<mapsto> Directory]"

definition after_bootstrap :: filesystem where
  "after_bootstrap = [[] \<mapsto> Directory, CERTS_DIR \<mapsto> Directory,
                      PRIVATE_PEM \<mapsto> File ''7'', PUBLIC_PEM \<mapsto> File ''7'']"

definition bad_sources_request :: json where
  "bad_sources_request =
     JObject [(''query_text'', JString ''q''), (''answer_text'', JString ''a''),
              (''sources'', JString ''oops'')]"

subsection \<open>What an array replacer leaves of a value\<close>

text \<open>\<open>prune K v\<close> is \<open>v\<close> with, in every object at any depth, the properties deleted
  whose names are not in \<open>K\<close>.\<close>

fun prune :: "string list \<Rightarrow> json \<Rightarrow> json" where
  "prune K (JArray xs) = JArray (map (prune K) xs)"
| "prune K (JObject fs) =
     JObject (filter (\<lambda>kv. fst kv \<in> set K) (map (\<lambda>kv. (fst kv, prune K (snd kv))) fs))"
| "prune K v = v"

subsection \<open>Values that differ in the order of fields only\<close>




section \<open>Properties\<close>

subsection \<open>Base64: decoding an encoding\<close>

lemma index_of_nth: "distinct xs \<Longrightarrow> n < length xs \<Longrightarrow> index_of (xs ! n) xs = Some n"
proof (induction xs arbitrary: n)
  case Nil
  then show ?case by simp
next
  case (Cons x xs)
  show ?case
  proof (cases n)
    case 0
    then show ?thesis by simp
  next
    case (Suc m)
    with Cons.prems have "xs ! m \<in> set xs" "x \<notin> set xs" by auto
    then have "xs ! m \<noteq> x" by auto
    with Suc Cons show ?thesis by simp
  qed
qed

lemma base64_alphabet_props:
  "distinct base64_alphabet" "length base64_alphabet = 64"
  "CHR ''-'' \<notin> set base64_alphabet" "CHR ''_'' \<notin> set base64_alphabet"
  "CHR ''='' \<notin> set base64_alphabet"
  by (simp_all add: base64_alphabet_def)

lemma base64_char_in: "n < 64 \<Longrightarrow> base64_char n \<in> set base64_alphabet"
  by (simp add: base64_char_def base64_alphabet_props)

lemma base64_char_not_pad: "n < 64 \<Longrightarrow> base64_char n \<noteq> CHR ''=''"
  using base64_char_in base64_alphabet_props(5) by metis

lemma unbase64_base64_char: "n < 64 \<Longrightarrow> unbase64 (base64_char n) = Some n"
proof -
  assume n: "n < 64"
  then have "base64_char n \<noteq> CHR ''-''" "base64_char n \<noteq> CHR ''_''"
    using base64_char_in base64_alphabet_props(3,4) by metis+
  moreover have "index_of (base64_char n) base64_alphabet = Some n"
    unfolding base64_char_def using n by (simp add: index_of_nth base64_alphabet_props)
  ultimately show ?thesis by (simp add: unbase64_def)
qed

lemma base64_sextets_Cons:
  "n < 64 \<Longrightarrow> base64_sextets (base64_char n # s) = n # base64_sextets s"
  by (simp add: base64_sextets_def base64_char_not_pad unbase64_base64_char
      List.map_filter_simps)

lemma base64_sextets_pad: "base64_sextets (CHR ''='' # s) = []"
  by (simp add: base64_sextets_def List.map_filter_simps)

lemma base64_sextets_Nil: "base64_sextets [] = []"
  by (simp add: base64_sextets_def List.map_filter_simps)

lemma sextet_bounds:
  fixes a b c :: nat
  assumes "a < 256" "b < 256" "c < 256"
  shows "a div 4 < 64" "(a mod 4) * 16 + b div 16 < 64" "(b mod 16) * 4 + c div 64 < 64"
    "c mod 64 < 64" "(a mod 4) * 16 < 64" "(b mod 16) * 4 < 64"
  using assms by auto

lemma byte_arith:
  fixes a b c :: nat
  assumes "a < 256" "b < 256" "c < 256"
  shows "(a div 4) * 4 + ((a mod 4) * 16 + b div 16) div 16 = a"
    "(((a mod 4) * 16 + b div 16) mod 16) * 16 + ((b mod 16) * 4 + c div 64) div 4 = b"
    "(((b mod 16) * 4 + c div 64) mod 4) * 64 + c mod 64 = c"
    "(a div 4) * 4 + ((a mod 4) * 16) div 16 = a"
    "(((a mod 4) * 16 + b div 16) mod 16) * 16 + ((b mod 16) * 4) div 4 = b"
  using assms by auto

lemma unbase64_groups_base64_groups:
  "\<forall>n \<in> set ns. n < 256 \<Longrightarrow>
     unbase64_groups (base64_sextets (base64_groups ns)) = map char_of ns"
proof (induction ns rule: base64_groups.induct)
  case (1 a b c bs)
  then have abc: "a < 256" "b < 256" "c < 256" and bs: "\<forall>n \<in> set bs. n < 256" by auto
  note sb = sextet_bounds [OF abc]
  show ?case
    by (simp only: base64_groups.simps append_Cons append_Nil
        base64_sextets_Cons [OF sb(1)] base64_sextets_Cons [OF sb(2)]
        base64_sextets_Cons [OF sb(3)] base64_sextets_Cons [OF sb(4)]
        unbase64_groups.simps byte_arith [OF abc] "1.IH" [OF bs] list.map)
next
  case (2 a b)
  then have ab: "a < 256" "b < 256" by auto
  note sb = sextet_bounds [OF ab ab(1)]
  show ?case
    by (simp only: base64_groups.simps append_Cons append_Nil
        base64_sextets_Cons [OF sb(1)] base64_sextets_Cons [OF sb(2)]
        base64_sextets_Cons [OF sb(6)] base64_sextets_pad
        unbase64_groups.simps byte_arith [OF ab ab(1)] list.map)
next
  case (3 a)
  then have a: "a < 256" by auto
  note sb = sextet_bounds [OF a a a]
  show ?case
    by (simp only: base64_groups.simps append_Cons append_Nil
        base64_sextets_Cons [OF sb(1)] base64_sextets_Cons [OF sb(5)] base64_sextets_pad
        unbase64_groups.simps byte_arith [OF a a a] list.map)
next
  case 4
  show ?case by (simp add: base64_sextets_Nil)
qed

lemma base64_decode_encode: "base64_decode (base64_encode bytes) = bytes"
proof -
  have "\<forall>n \<in> set (map of_char bytes :: nat list). n < 256" by simp
  from unbase64_groups_base64_groups [OF this]
  show ?thesis by (simp add: base64_decode_def base64_encode_def comp_def)
qed

subsection \<open>Signing and verifying\<close>


lemma canonical_data_cases:
  "p \<noteq> JUndefined \<Longrightarrow> p \<noteq> JNull \<Longrightarrow> \<exists>data. canonical_data p = Inr (Some data)"
  by (cases p) (simp_all add: canonical_data_def JSON_stringify_def)

lemma sign_then_verify:
  assumes priv: "readFileSync fs PRIVATE_PEM = Inr privateKey"
    and pub: "readFileSync fs PUBLIC_PEM = Inr publicKey"
    and keys: "matching_keypair c privateKey publicKey"
    and p: "canonical_data p = Inr (Some data)"
    and p': "canonical_data p' = Inr (Some data)"
  shows "\<exists>signed. signPayload c fs now p = Inr signed
           \<and> verifySignature c fs (signed\<lparr>payload := p'\<rparr>) = Inr True"
proof -
  from keys obtain sig where sig: "rsa_sign c privateKey data = Inr sig"
    "rsa_verify c publicKey data sig = Inr True"
    unfolding matching_keypair_def by blast
  have "signPayload c fs now p
      = Inr \<lparr>payload = p, signature = base64_encode sig, signed_at = now\<rparr>"
    by (simp add: signPayload_def p priv sig(1))
  moreover have "verifySignature c fs
      (\<lparr>payload = p, signature = base64_encode sig, signed_at = now\<rparr>\<lparr>payload := p'\<rparr>) = Inr True"
    by (simp add: verifySignature_def p' pub sig(2) base64_decode_encode)
  ultimately show ?thesis by simp
qed

lemma demo_files:
  "readFileSync demo_fs PRIVATE_PEM = Inr ''42''" "readFileSync demo_fs PUBLIC_PEM = Inr ''42''"
  by (simp_all add: readFileSync_def dirname_def demo_fs_def PRIVATE_PEM_def PUBLIC_PEM_def
      CERTS_DIR_def)

lemma demo_matching: "matching_keypair demo_crypto k k"
  by (simp add: matching_keypair_def demo_crypto_def)

subsection \<open>The serializer and the property list\<close>



lemma map_filter_cong:
  "(\<And>x. x \<in> set xs \<Longrightarrow> f x = g x) \<Longrightarrow> List.map_filter f xs = List.map_filter g xs"
  by (induction xs) (auto simp: List.map_filter_simps split: option.splits)

lemma map_of_prune:
  "P \<in> set K \<Longrightarrow>
     map_of (filter (\<lambda>kv. fst kv \<in> set K) (map (\<lambda>kv. (fst kv, f (snd kv))) fs)) P
       = map_option f (map_of fs P)"
  by (induction fs) auto

lemma SerializeJSONProperty_prune:
  "set K \<subseteq> set K' \<Longrightarrow>
     SerializeJSONProperty K gap indent (prune K' v) = SerializeJSONProperty K gap indent v"
proof (induction K gap indent v rule: SerializeJSONProperty.induct)
  case (6 K gap indent xs)
  then have "map (\<lambda>x. case SerializeJSONProperty K gap (indent @ gap) (prune K' x) of
                    None \<Rightarrow> ''null'' | Some strP \<Rightarrow> strP) xs
      = map (\<lambda>x. case SerializeJSONProperty K gap (indent @ gap) x of
                    None \<Rightarrow> ''null'' | Some strP \<Rightarrow> strP) xs"
    by (intro map_cong) auto
  then show ?case by (simp only: prune.simps SerializeJSONProperty.simps map_map comp_def)
next
  case (7 K gap indent fs)
  have "List.map_filter
          (\<lambda>P. case map_of (filter (\<lambda>kv. fst kv \<in> set K')
                    (map (\<lambda>kv. (fst kv, prune K' (snd kv))) fs)) P of
                  None \<Rightarrow> None
                | Some v \<Rightarrow> map_option (Pair P) (SerializeJSONProperty K gap (indent @ gap) v)) K
      = List.map_filter
          (\<lambda>P. case map_of fs P of
                  None \<Rightarrow> None
                | Some v \<Rightarrow> map_option (Pair P) (SerializeJSONProperty K gap (indent @ gap) v)) K"
  proof (rule map_filter_cong)
    fix P assume P: "P \<in> set K"
    with 7(2) have "P \<in> set K'" by auto
    then show "(case map_of (filter (\<lambda>kv. fst kv \<in> set K')
                    (map (\<lambda>kv. (fst kv, prune K' (snd kv))) fs)) P of
                  None \<Rightarrow> None
                | Some v \<Rightarrow> map_option (Pair P) (SerializeJSONProperty K gap (indent @ gap) v))
       = (case map_of fs P of
                  None \<Rightarrow> None
                | Some v \<Rightarrow> map_option (Pair P) (SerializeJSONProperty K gap (indent @ gap) v))"
      using 7(1) [of P] 7(2) by (simp add: map_of_prune split: option.splits)
  qed
  then show ?case by (simp only: prune.simps SerializeJSONProperty.simps)
qed simp_all


lemma PropertyList_foldl_subset:
  "set (foldl (\<lambda>acc k. if k \<in> set acc then acc else acc @ [k]) acc ks) \<subseteq> set acc \<union> set ks"
proof (induction ks arbitrary: acc)
  case Nil
  show ?case by simp
next
  case (Cons k ks)
  show ?case using Cons.IH [of acc] Cons.IH [of "acc @ [k]"] by (cases "k \<in> set acc") auto
qed

lemma PropertyList_subset: "set (PropertyList ks) \<subseteq> set ks"
  using PropertyList_foldl_subset [of "[]" ks] by (simp add: PropertyList_def)

lemma prune_top_keys:
  assumes "prune (map fst fs) (JObject fs) = prune (map fst fs') (JObject fs')"
  shows "map fst fs = map fst fs'"
proof -
  have keep: "map fst (filter (\<lambda>kv. fst kv \<in> set (map fst gs))
      (map (\<lambda>kv. (fst kv, h (snd kv))) gs)) = map fst gs"
    for gs :: "(string \<times> json) list" and h
  proof -
    have "filter (\<lambda>kv. fst kv \<in> set (map fst gs)) (map (\<lambda>kv. (fst kv, h (snd kv))) gs)
        = map (\<lambda>kv. (fst kv, h (snd kv))) gs"
      by (rule filter_True) auto
    then show ?thesis by (simp add: comp_def)
  qed
  from assms have "filter (\<lambda>kv. fst kv \<in> set (map fst fs))
        (map (\<lambda>kv. (fst kv, prune (map fst fs) (snd kv))) fs)
     = filter (\<lambda>kv. fst kv \<in> set (map fst fs'))
        (map (\<lambda>kv. (fst kv, prune (map fst fs') (snd kv))) fs')"
    by (simp only: prune.simps json.inject)
  then have "map fst (filter (\<lambda>kv. fst kv \<in> set (map fst fs))
        (map (\<lambda>kv. (fst kv, prune (map fst fs) (snd kv))) fs))
     = map fst (filter (\<lambda>kv. fst kv \<in> set (map fst fs'))
        (map (\<lambda>kv. (fst kv, prune (map fst fs') (snd kv))) fs'))"
    by (rule arg_cong)
  then show ?thesis by (simp only: keep)
qed

lemma canonical_data_prune:
  assumes "prune (map fst fs) (JObject fs) = prune (map fst fs') (JObject fs')"
  shows "canonical_data (JObject fs) = canonical_data (JObject fs')"
proof -
  let ?K = "PropertyList (sort (map fst fs))"
  have keys: "map fst fs = map fst fs'" by (rule prune_top_keys [OF assms])
  have sub: "set ?K \<subseteq> set (map fst fs)"
    using PropertyList_subset [of "sort (map fst fs)"] by simp
  have "SerializeJSONProperty ?K gap [] (JObject fs)
      = SerializeJSONProperty ?K gap [] (prune (map fst fs) (JObject fs))" for gap
    by (rule SerializeJSONProperty_prune [OF sub, symmetric])
  also have "\<dots> gap = SerializeJSONProperty ?K gap [] (prune (map fst fs') (JObject fs'))" for gap
    by (simp only: assms)
  also have "\<dots> gap = SerializeJSONProperty ?K gap [] (JObject fs')" for gap
    using sub by (simp only: SerializeJSONProperty_prune keys)
  finally show ?thesis
    by (simp add: canonical_data_def JSON_stringify_def keys)
qed

lemma canonical_data_cited_payload:
  "canonical_data (cited_payload e) = canonical_data (cited_payload e')"
  unfolding cited_payload_def by (rule canonical_data_prune) simp

lemma prune_idem: "prune K (prune K v) = prune K v"
  by (induction K v rule: prune.induct) (auto simp: filter_map comp_def)

lemma canonical_data_of_pruned:
  "canonical_data (prune (map fst fs) (JObject fs)) = canonical_data (JObject fs)"
proof -
  have "prune (map fst fs) (JObject fs) = JObject (map (\<lambda>kv. (fst kv, prune (map fst fs) (snd kv))) fs)"
    (is "_ = JObject ?gs")
    by (simp add: filter_True)
  moreover have keys: "map fst ?gs = map fst fs" by (simp add: comp_def)
  moreover have "prune (map fst ?gs) (JObject ?gs) = prune (map fst fs) (JObject fs)"
    unfolding keys using prune_idem [of "map fst fs" "JObject fs"] calculation(1) by simp
  ultimately show ?thesis
    using canonical_data_prune [of ?gs fs] by simp
qed






subsection \<open>The idealised signature scheme\<close>

lemma ideal_matching: "ideal_keypair c privateKey publicKey \<Longrightarrow> matching_keypair c privateKey publicKey"
  unfolding ideal_keypair_def matching_keypair_def by metis

lemma demo_ideal: "ideal_keypair demo_crypto k k"
  by (auto simp: ideal_keypair_def demo_crypto_def inj_on_def)

lemma signPayload_Inr:
  assumes "signPayload c fs now p = Inr signed"
  obtains data privateKey sig where "canonical_data p = Inr (Some data)"
    and "readFileSync fs PRIVATE_PEM = Inr privateKey"
    and "rsa_sign c privateKey data = Inr sig"
    and "signed = \<lparr>payload = p, signature = base64_encode sig, signed_at = now\<rparr>"
  using assms by (auto simp: signPayload_def split: sum.splits option.splits)

lemma verify_ideal:
  assumes pub: "readFileSync fs PUBLIC_PEM = Inr publicKey"
    and ideal: "ideal_keypair c privateKey publicKey"
    and data: "canonical_data (payload sp) = Inr (Some data)"
  shows "verifySignature c fs sp
           = Inr (rsa_sign c privateKey data = Inr (base64_decode (signature sp)))"
  using ideal by (simp add: verifySignature_def pub data ideal_keypair_def)

lemma scenario_texts_differ:
  "canonical_data (scenario_payload ''Sow after first monsoon rain.'')
     \<noteq> canonical_data (scenario_payload ''Sow before monsoon.'')"
  by code_simp

subsection \<open>The key files\<close>

lemma key_paths:
  "dirname PRIVATE_PEM = CERTS_DIR" "dirname PUBLIC_PEM = CERTS_DIR" "dirname CERTS_DIR = []"
  "PRIVATE_PEM \<noteq> PUBLIC_PEM" "PRIVATE_PEM \<noteq> CERTS_DIR" "PUBLIC_PEM \<noteq> CERTS_DIR"
  "PUBLIC_PEM \<noteq> PRIVATE_PEM" "CERTS_DIR \<noteq> PRIVATE_PEM" "CERTS_DIR \<noteq> PUBLIC_PEM"
  "PRIVATE_PEM \<noteq> []" "PUBLIC_PEM \<noteq> []" "CERTS_DIR \<noteq> []"
  "[] \<noteq> PRIVATE_PEM" "[] \<noteq> PUBLIC_PEM" "[] \<noteq> CERTS_DIR"
  by (simp_all add: dirname_def PRIVATE_PEM_def PUBLIC_PEM_def CERTS_DIR_def)

lemma key_bootstrap_present:
  assumes "existsSync fs PRIVATE_PEM" "existsSync fs PUBLIC_PEM"
  shows "fst (key_bootstrap c e fs) PRIVATE_PEM = fs PRIVATE_PEM"
    and "fst (key_bootstrap c e fs) PUBLIC_PEM = fs PUBLIC_PEM"
    and "key_bootstrap c e fs = key_bootstrap c' e' fs"
  using assms
  by (auto simp: key_bootstrap_def existsSync_def mkdirSync_def key_paths
      split: option.splits node.splits)

lemma key_bootstrap_generates:
  assumes "\<not> (existsSync fs PRIVATE_PEM \<and> existsSync fs PUBLIC_PEM)"
    and "key_bootstrap c e fs = (fs', None)"
  shows "fs' PRIVATE_PEM = Some (File (fst (generateKeyPairSync c 2048 e)))"
    and "fs' PUBLIC_PEM = Some (File (snd (generateKeyPairSync c 2048 e)))"
  using assms
  by (auto simp: key_bootstrap_def existsSync_def mkdirSync_def writeFileSync_def key_paths
      split: option.splits node.splits if_splits prod.splits)

lemma key_bootstrap_exists_after:
  assumes "key_bootstrap c e fs = (fs', None)"
  shows "existsSync fs' CERTS_DIR" "existsSync fs' PRIVATE_PEM" "existsSync fs' PUBLIC_PEM"
  using assms
  by (auto simp: key_bootstrap_def existsSync_def mkdirSync_def writeFileSync_def key_paths
      split: option.splits node.splits if_splits prod.splits)

lemma key_bootstrap_again:
  assumes "key_bootstrap c e fs = (fs', None)"
  shows "key_bootstrap c' e' fs' = (fs', None)"
  using key_bootstrap_exists_after [OF assms]
  by (simp add: key_bootstrap_def)

lemma key_bootstrap_succeeds:
  assumes "fs [] = Some Directory"
    and "fs CERTS_DIR = None \<or> fs CERTS_DIR = Some Directory"
    and "fs PRIVATE_PEM \<noteq> Some Directory" and "fs PUBLIC_PEM \<noteq> Some Directory"
  shows "snd (key_bootstrap c e fs) = None"
  using assms
  by (auto simp: key_bootstrap_def existsSync_def mkdirSync_def writeFileSync_def key_paths
      split: option.splits node.splits if_splits prod.splits)

section \<open>The claims\<close>

text \<open>
  Claim C1 (tamper detection), evaluated where it fails.  The payload is the one the
  handler builds, with one cited source; \<open>e\<close> and \<open>e'\<close> are two texts of the excerpt of
  that source.  With a matching key pair in the key files, the package signed for the
  excerpt \<open>e\<close> verifies as \<^verbatim>\<open>true\<close> after its payload has been replaced by the payload
  with the excerpt \<open>e'\<close>: the change of the excerpt is not detected.
\<close>

theorem tampered_citation_verifies:
  assumes "readFileSync fs PRIVATE_PEM = Inr privateKey"
    and "readFileSync fs PUBLIC_PEM = Inr publicKey"
    and "matching_keypair c privateKey publicKey"
  shows "\<exists>signed. signPayload c fs now (cited_payload e) = Inr signed
           \<and> verifySignature c fs (signed\<lparr>payload := cited_payload e'\<rparr>) = Inr True"
proof -
  obtain data where d: "canonical_data (cited_payload e) = Inr (Some data)"
    using canonical_data_cases [of "cited_payload e"] by (auto simp: cited_payload_def)
  then have d': "canonical_data (cited_payload e') = Inr (Some data)"
    using canonical_data_cited_payload [of e e'] by simp
  show ?thesis by (rule sign_then_verify [OF assms d d'])
qed

theorem tampered_citation_verifies_witness:
  "cited_payload ''Sow in December.'' \<noteq> cited_payload ''Sow in June.''
   \<and> (\<exists>signed. signPayload demo_crypto demo_fs ''2024-01-01T00:00:00.001Z''
                   (cited_payload ''Sow in June.'') = Inr signed
         \<and> verifySignature demo_crypto demo_fs
               (signed\<lparr>payload := cited_payload ''Sow in December.''\<rparr>) = Inr True)"
  using tampered_citation_verifies [OF demo_files demo_matching,
      of "''2024-01-01T00:00:00.001Z''" "''Sow in June.''" "''Sow in December.''"]
  by (simp add: cited_payload_def)

text \<open>
  Claim C2 (round trip).  With a matching key pair in the two key files, every payload
  that is neither \<^verbatim>\<open>undefined\<close> nor \<^verbatim>\<open>null\<close> is signed without an exception, and
  \<^verbatim>\<open>verifySignature\<close> returns \<^verbatim>\<open>true\<close> on the package \<^verbatim>\<open>signPayload\<close> returned.
\<close>

theorem sign_verify_round_trip:
  assumes "readFileSync fs PRIVATE_PEM = Inr privateKey"
    and "readFileSync fs PUBLIC_PEM = Inr publicKey"
    and "matching_keypair c privateKey publicKey"
    and "p \<noteq> JUndefined" and "p \<noteq> JNull"
  shows "\<exists>signed. signPayload c fs now p = Inr signed \<and> verifySignature c fs signed = Inr True"
proof -
  from assms(4,5) obtain data where "canonical_data p = Inr (Some data)"
    using canonical_data_cases by blast
  from sign_then_verify [OF assms(1-3) this this, of now]
  obtain signed where s: "signPayload c fs now p = Inr signed"
    "verifySignature c fs (signed\<lparr>payload := p\<rparr>) = Inr True" by blast
  from s(1) have "payload signed = p"
    by (auto simp: signPayload_def split: sum.splits option.splits)
  then have "signed\<lparr>payload := p\<rparr> = signed" by (cases signed) simp
  with s show ?thesis by auto
qed

theorem sign_verify_round_trip_witness:
  "readFileSync demo_fs PRIVATE_PEM = Inr ''42'' \<and> readFileSync demo_fs PUBLIC_PEM = Inr ''42''
   \<and> matching_keypair demo_crypto ''42'' ''42''
   \<and> (\<exists>signed. signPayload demo_crypto demo_fs ''2024-01-01T00:00:00.000Z''
                   (JObject [(''query_text'', JString ''q''), (''answer_text'', JString ''a'')]) = Inr signed
                \<and> verifySignature demo_crypto demo_fs signed = Inr True)"
  using sign_verify_round_trip [OF demo_files demo_matching, of
      "JObject [(''query_text'', JString ''q''), (''answer_text'', JString ''a'')]"
      "''2024-01-01T00:00:00.000Z''"]
    demo_files demo_matching
  by simp



text \<open>
  Claim C4 (nested fields), as amended.  A field of a nested object is left out of the
  canonical serialization when its name is not one of the top-level field names of the
  payload: the payload and the payload with those fields deleted serialize alike.  So two
  payloads that are equal once those fields are deleted have the same canonical
  serialization, and with a matching key pair in the key files each of them is signed
  and verifies as \<^verbatim>\<open>true\<close> with the signature of the other.
\<close>

theorem nested_fields_outside_key_list_unsigned:
  assumes "readFileSync files PRIVATE_PEM = Inr privateKey"
    and "readFileSync files PUBLIC_PEM = Inr publicKey"
    and "matching_keypair c privateKey publicKey"
    and "prune (map fst fs) (JObject fs) = prune (map fst fs') (JObject fs')"
  shows "canonical_data (JObject fs) = canonical_data (prune (map fst fs) (JObject fs))
    \<and> canonical_data (JObject fs) = canonical_data (JObject fs')
    \<and> (\<exists>signed signed'.
          signPayload c files now (JObject fs) = Inr signed
        \<and> signPayload c files now' (JObject fs') = Inr signed'
        \<and> verifySignature c files (signed\<lparr>payload := JObject fs'\<rparr>) = Inr True
        \<and> verifySignature c files (signed'\<lparr>payload := JObject fs\<rparr>) = Inr True)"
proof -
  have same: "canonical_data (JObject fs) = canonical_data (JObject fs')"
    by (rule canonical_data_prune [OF assms(4)])
  obtain data where d: "canonical_data (JObject fs) = Inr (Some data)"
    using canonical_data_cases [of "JObject fs"] by auto
  with same have d': "canonical_data (JObject fs') = Inr (Some data)" by simp
  from sign_then_verify [OF assms(1-3) d d', of now]
  obtain signed where s: "signPayload c files now (JObject fs) = Inr signed"
    "verifySignature c files (signed\<lparr>payload := JObject fs'\<rparr>) = Inr True" by blast
  from sign_then_verify [OF assms(1-3) d' d, of now']
  obtain signed' where s': "signPayload c files now' (JObject fs') = Inr signed'"
    "verifySignature c files (signed'\<lparr>payload := JObject fs\<rparr>) = Inr True" by blast
  from s s' same canonical_data_of_pruned [of fs] show ?thesis by auto
qed

theorem nested_fields_outside_key_list_unsigned_witness:
  "(let fs = one_source_payload
               (JObject [(''id'', JString ''doc1''), (''excerpt'', JString ''dry season'')]);
        fs' = one_source_payload
               (JObject [(''title'', JString ''other''), (''weight'', JNum 3)])
    in prune (map fst fs) (JObject fs) = prune (map fst fs') (JObject fs')
     \<and> JObject fs \<noteq> JObject fs'
     \<and> canonical_data (JObject fs) = canonical_data (prune (map fst fs) (JObject fs))
     \<and> canonical_data (JObject fs) = canonical_data (JObject fs')
     \<and> (\<exists>signed signed'.
          signPayload demo_crypto demo_fs ''t'' (JObject fs) = Inr signed
        \<and> signPayload demo_crypto demo_fs ''u'' (JObject fs') = Inr signed'
        \<and> verifySignature demo_crypto demo_fs (signed\<lparr>payload := JObject fs'\<rparr>) = Inr True
        \<and> verifySignature demo_crypto demo_fs (signed'\<lparr>payload := JObject fs\<rparr>) = Inr True))"
proof -
  let ?fs = "one_source_payload
               (JObject [(''id'', JString ''doc1''), (''excerpt'', JString ''dry season'')])"
  let ?fs' = "one_source_payload
               (JObject [(''title'', JString ''other''), (''weight'', JNum 3)])"
  have h: "prune (map fst ?fs) (JObject ?fs) = prune (map fst ?fs') (JObject ?fs')"
    by (simp add: one_source_payload_def)
  have ne: "JObject ?fs \<noteq> JObject ?fs'"
    by (simp add: one_source_payload_def)
  note t = nested_fields_outside_key_list_unsigned
    [OF demo_files demo_matching h, of "''t''" "''u''"]
  from h ne t show ?thesis unfolding Let_def by blast
qed

text \<open>
  Claim C4 as stated fails: a field of a nested object whose name is also a top-level
  field name is serialized.  The two payloads have the top-level fields \<^verbatim>\<open>lang\<close> and
  \<^verbatim>\<open>sources\<close>, the same \<^verbatim>\<open>lang\<close>, and differ in the \<^verbatim>\<open>lang\<close> of their one source;
  their canonical serializations differ, and the signature of the first does not verify
  with the second.
\<close>

theorem nested_field_named_like_top_level_key_counterexample:
  "canonical_data (JObject [(''lang'', JString ''ml''),
                            (''sources'', JArray [JObject [(''lang'', JString ''en'')]])])
   \<noteq> canonical_data (JObject [(''lang'', JString ''ml''),
                            (''sources'', JArray [JObject [(''lang'', JString ''fr'')]])])
   \<and> (case signPayload demo_crypto demo_fs ''t''
                  (JObject [(''lang'', JString ''ml''),
                            (''sources'', JArray [JObject [(''lang'', JString ''en'')]])]) of
        Inl e \<Rightarrow> False
      | Inr signed \<Rightarrow>
          verifySignature demo_crypto demo_fs
             (signed\<lparr>payload := JObject [(''lang'', JString ''ml''),
                            (''sources'', JArray [JObject [(''lang'', JString ''fr'')]])]\<rparr>)
            = Inr False)"
  by code_simp

text \<open>
  Claim C5 (signature malformation), as amended.  Under the idealised signature scheme,
  for a package that \<^verbatim>\<open>signPayload\<close> returned and any text \<open>s\<close> put in place of its
  signature, well-formed base64 or not, \<^verbatim>\<open>verifySignature\<close> throws nothing and returns
  whether \<open>s\<close> decodes to the bytes the original signature decodes to.  So it returns
  \<^verbatim>\<open>false\<close> for every corruption that changes the decoded bytes, and no input yields
  \<^verbatim>\<open>MalformedInputError\<close>.
\<close>

theorem corrupted_signature_text:
  assumes priv: "readFileSync fs PRIVATE_PEM = Inr privateKey"
    and pub: "readFileSync fs PUBLIC_PEM = Inr publicKey"
    and ideal: "ideal_keypair c privateKey publicKey"
    and signed: "signPayload c fs now p = Inr signed"
  shows "verifySignature c fs (signed\<lparr>signature := s\<rparr>)
           = Inr (base64_decode s = base64_decode (signature signed))"
proof -
  from signed priv obtain data sig where data: "canonical_data p = Inr (Some data)"
    and sig: "rsa_sign c privateKey data = Inr sig"
    and eq: "signed = \<lparr>payload = p, signature = base64_encode sig, signed_at = now\<rparr>"
    by (auto elim!: signPayload_Inr)
  have "verifySignature c fs (signed\<lparr>signature := s\<rparr>)
      = Inr (rsa_sign c privateKey data = Inr (base64_decode s))"
    using verify_ideal [OF pub ideal, of "signed\<lparr>signature := s\<rparr>" data]
    by (simp add: eq data)
  also have "\<dots> = Inr (base64_decode s = base64_decode (signature signed))"
    by (auto simp: sig eq base64_decode_encode)
  finally show ?thesis .
qed

theorem corrupted_signature_text_witness:
  "(\<exists>signed. signPayload demo_crypto demo_fs ''t'' (JObject [(''a'', JString ''x'')]) = Inr signed
      \<and> signature signed = ''NDJ7CiAgImEiOiAieCIKfQ==''
      \<and> verifySignature demo_crypto demo_fs (signed\<lparr>signature := ''NDJ7CiAgImEiOiAieCIKfR==''\<rparr>)
           = Inr (base64_decode ''NDJ7CiAgImEiOiAieCIKfR=='' = base64_decode ''NDJ7CiAgImEiOiAieCIKfQ==''))"
proof -
  have s: "signPayload demo_crypto demo_fs ''t'' (JObject [(''a'', JString ''x'')])
      = Inr \<lparr>payload = JObject [(''a'', JString ''x'')],
              signature = ''NDJ7CiAgImEiOiAieCIKfQ=='', signed_at = ''t''\<rparr>"
    by code_simp
  from corrupted_signature_text [OF demo_files demo_ideal s, of "''NDJ7CiAgImEiOiAieCIKfR==''"] s
  show ?thesis by simp
qed

text \<open>
  Claim C5 as stated fails twice.  The signature below ends in \<^verbatim>\<open>fQ==\<close>; with
  \<^verbatim>\<open>Q\<close> changed to \<^verbatim>\<open>R\<close> the text is still well-formed base64 and decodes to the
  same bytes (the four low bits of the last character are not used), and verification
  returns \<^verbatim>\<open>true\<close>.  The 256 bytes of an RSA-2048 signature end in such a group too.
  With the first character changed to \<^verbatim>\<open>!\<close> the text is not base64, and verification
  returns \<^verbatim>\<open>false\<close> instead of failing.
\<close>

theorem corrupted_signature_counterexample:
  "signPayload demo_crypto demo_fs ''t'' (JObject [(''a'', JString ''x'')])
     = Inr \<lparr>payload = JObject [(''a'', JString ''x'')],
             signature = ''NDJ7CiAgImEiOiAieCIKfQ=='', signed_at = ''t''\<rparr>
   \<and> verifySignature demo_crypto demo_fs
        \<lparr>payload = JObject [(''a'', JString ''x'')],
         signature = ''NDJ7CiAgImEiOiAieCIKfR=='', signed_at = ''t''\<rparr> = Inr True
   \<and> verifySignature demo_crypto demo_fs
        \<lparr>payload = JObject [(''a'', JString ''x'')],
         signature = ''!DJ7CiAgImEiOiAieCIKfQ=='', signed_at = ''t''\<rparr> = Inr False"
  by code_simp

text \<open>
  Claim C6 (rendering failure), evaluated where it fails.  When the request passes
  validation and the payload is signed, an exception \<open>e\<close> of the step that creates the
  PDF ends the request with status 500 and the error body: the signed certificate is not
  returned.
\<close>

theorem certify_rendering_failure:
  assumes "\<not> falsy (Get req_body ''query_text'')" and "\<not> falsy (Get req_body ''answer_text'')"
    and "signPayload c fs (signed_now clk) (certify_payload clk req_body) = Inr signed"
    and "create_pdf lib (pdf_path clk) (certify_payload clk req_body)
           (Get req_body ''sources'') signed = Some e"
  shows "certify c lib fs clk req_body
           = \<lparr>status = 500, body = ErrorJson ''certify failed'' (Some e)\<rparr>"
proof -
  from assms(1) have "req_body \<noteq> JUndefined" "req_body \<noteq> JNull" by auto
  with assms show ?thesis by (simp add: certify_def)
qed

theorem certify_rendering_failure_witness:
  "\<not> falsy (Get bad_sources_request ''query_text'')
   \<and> \<not> falsy (Get bad_sources_request ''answer_text'')
   \<and> (\<exists>signed. signPayload demo_crypto demo_fs (signed_now demo_clock)
                   (certify_payload demo_clock bad_sources_request) = Inr signed
         \<and> create_pdf demo_pdfkit (pdf_path demo_clock)
              (certify_payload demo_clock bad_sources_request)
              (Get bad_sources_request ''sources'') signed = Some TypeError)
   \<and> certify demo_crypto demo_pdfkit demo_fs demo_clock bad_sources_request
       = \<lparr>status = 500, body = ErrorJson ''certify failed'' (Some TypeError)\<rparr>"
proof -
  have q: "\<not> falsy (Get bad_sources_request ''query_text'')"
    and a: "\<not> falsy (Get bad_sources_request ''answer_text'')"
    by (simp_all add: bad_sources_request_def)
  have "certify_payload demo_clock bad_sources_request \<noteq> JUndefined"
    "certify_payload demo_clock bad_sources_request \<noteq> JNull"
    by (simp_all add: certify_payload_def)
  then obtain data where "canonical_data (certify_payload demo_clock bad_sources_request)
      = Inr (Some data)"
    using canonical_data_cases by blast
  from sign_then_verify [OF demo_files demo_matching this this]
  obtain signed where s: "signPayload demo_crypto demo_fs (signed_now demo_clock)
      (certify_payload demo_clock bad_sources_request) = Inr signed"
    by blast
  have r: "create_pdf demo_pdfkit (pdf_path demo_clock)
      (certify_payload demo_clock bad_sources_request)
      (Get bad_sources_request ''sources'') signed = Some TypeError"
    by (simp add: create_pdf_def demo_pdfkit_def sources_lines_def bad_sources_request_def)
  from certify_rendering_failure [OF q a s r] q a s r show ?thesis by blast
qed

text \<open>
  Claim C7 (effects of signing), as amended.  \<^verbatim>\<open>signPayload\<close> writes nothing (it has no
  file system to return), but it reads the private key file on every call: its result
  depends on the file system through the entries of \<^verbatim>\<open>certs\<close> and of
  \<^verbatim>\<open>certs/private.pem\<close> alone.  For every payload it can serialize it fails with
  \<^verbatim>\<open>ENOENT\<close> when, at the time of the call, the key file or the directory is absent,
  and with \<^verbatim>\<open>ENOTDIR\<close> when \<^verbatim>\<open>certs\<close> is a regular file.
\<close>

theorem signPayload_reads_private_key:
  "(fs CERTS_DIR = fs' CERTS_DIR \<and> fs PRIVATE_PEM = fs' PRIVATE_PEM
        \<longrightarrow> signPayload c fs now p = signPayload c fs' now p)
   \<and> (fs CERTS_DIR = Some Directory \<and> fs PRIVATE_PEM = None \<and> p \<noteq> JUndefined \<and> p \<noteq> JNull
        \<longrightarrow> signPayload c fs now p = Inl ENOENT)
   \<and> (fs CERTS_DIR = None \<and> p \<noteq> JUndefined \<and> p \<noteq> JNull
        \<longrightarrow> signPayload c fs now p = Inl ENOENT)
   \<and> (fs CERTS_DIR = Some (File d) \<and> p \<noteq> JUndefined \<and> p \<noteq> JNull
        \<longrightarrow> signPayload c fs now p = Inl ENOTDIR)"
proof (intro conjI impI)
  assume "fs CERTS_DIR = fs' CERTS_DIR \<and> fs PRIVATE_PEM = fs' PRIVATE_PEM"
  then have "fs (dirname PRIVATE_PEM) = fs' (dirname PRIVATE_PEM)"
    and "fs PRIVATE_PEM = fs' PRIVATE_PEM"
    by (simp_all add: key_paths)
  then have "readFileSync fs PRIVATE_PEM = readFileSync fs' PRIVATE_PEM"
    unfolding readFileSync_def by (simp only:)
  then show "signPayload c fs now p = signPayload c fs' now p"
    unfolding signPayload_def by (simp only:)
next
  assume a: "fs CERTS_DIR = Some Directory \<and> fs PRIVATE_PEM = None
      \<and> p \<noteq> JUndefined \<and> p \<noteq> JNull"
  then obtain data where "canonical_data p = Inr (Some data)"
    using canonical_data_cases by blast
  with a show "signPayload c fs now p = Inl ENOENT"
    by (simp add: signPayload_def readFileSync_def key_paths)
next
  assume a: "fs CERTS_DIR = None \<and> p \<noteq> JUndefined \<and> p \<noteq> JNull"
  then obtain data where "canonical_data p = Inr (Some data)"
    using canonical_data_cases by blast
  with a show "signPayload c fs now p = Inl ENOENT"
    by (simp add: signPayload_def readFileSync_def key_paths)
next
  assume a: "fs CERTS_DIR = Some (File d) \<and> p \<noteq> JUndefined \<and> p \<noteq> JNull"
  then obtain data where "canonical_data p = Inr (Some data)"
    using canonical_data_cases by blast
  with a show "signPayload c fs now p = Inl ENOTDIR"
    by (simp add: signPayload_def readFileSync_def key_paths)
qed

theorem signPayload_reads_private_key_witness:
  "demo_fs CERTS_DIR = (demo_fs(PUBLIC_PEM := None)) CERTS_DIR
   \<and> demo_fs PRIVATE_PEM = (demo_fs(PUBLIC_PEM := None)) PRIVATE_PEM
   \<and> signPayload demo_crypto demo_fs ''t'' (JObject [(''a'', JString ''x'')])
       = signPayload demo_crypto (demo_fs(PUBLIC_PEM := None)) ''t'' (JObject [(''a'', JString ''x'')])
   \<and> (demo_fs(PRIVATE_PEM := None)) CERTS_DIR = Some Directory
   \<and> (demo_fs(PRIVATE_PEM := None)) PRIVATE_PEM = None
   \<and> signPayload demo_crypto (demo_fs(PRIVATE_PEM := None)) ''t'' (JObject [(''a'', JString ''x'')])
       = Inl ENOENT
   \<and> (demo_fs(CERTS_DIR := None)) CERTS_DIR = None
   \<and> signPayload demo_crypto (demo_fs(CERTS_DIR := None)) ''t'' (JObject [(''a'', JString ''x'')])
       = Inl ENOENT
   \<and> (demo_fs(CERTS_DIR \<mapsto> File ''x'')) CERTS_DIR = Some (File ''x'')
   \<and> signPayload demo_crypto (demo_fs(CERTS_DIR \<mapsto> File ''x'')) ''t''
        (JObject [(''a'', JString ''x'')])
       = Inl ENOTDIR"
proof -
  let ?p = "JObject [(''a'', JString ''x'')]"
  have e: "demo_fs CERTS_DIR = (demo_fs(PUBLIC_PEM := None)) CERTS_DIR"
    "demo_fs PRIVATE_PEM = (demo_fs(PUBLIC_PEM := None)) PRIVATE_PEM"
    "(demo_fs(PRIVATE_PEM := None)) CERTS_DIR = Some Directory"
    "(demo_fs(PRIVATE_PEM := None)) PRIVATE_PEM = None"
    "(demo_fs(CERTS_DIR := None)) CERTS_DIR = None"
    "(demo_fs(CERTS_DIR \<mapsto> File ''x'')) CERTS_DIR = Some (File ''x'')"
    by (simp_all add: demo_fs_def key_paths)
  have p: "?p \<noteq> JUndefined" "?p \<noteq> JNull" by simp_all
  note t1 = signPayload_reads_private_key
    [of demo_fs "demo_fs(PUBLIC_PEM := None)" demo_crypto "''t''" ?p]
  note t2 = signPayload_reads_private_key
    [of "demo_fs(PRIVATE_PEM := None)" demo_fs demo_crypto "''t''" ?p]
  note t3 = signPayload_reads_private_key
    [of "demo_fs(CERTS_DIR := None)" demo_fs demo_crypto "''t''" ?p]
  note t4 = signPayload_reads_private_key
    [of "demo_fs(CERTS_DIR \<mapsto> File ''x'')" demo_fs demo_crypto "''t''" ?p "''x''"]
  have 1: "signPayload demo_crypto demo_fs ''t'' ?p
      = signPayload demo_crypto (demo_fs(PUBLIC_PEM := None)) ''t'' ?p"
    using t1 e(1,2) by blast
  have 2: "signPayload demo_crypto (demo_fs(PRIVATE_PEM := None)) ''t'' ?p = Inl ENOENT"
    using t2 e(3,4) p by blast
  have 3: "signPayload demo_crypto (demo_fs(CERTS_DIR := None)) ''t'' ?p = Inl ENOENT"
    using t3 e(5) p by blast
  have 4: "signPayload demo_crypto (demo_fs(CERTS_DIR \<mapsto> File ''x'')) ''t'' ?p = Inl ENOTDIR"
    using t4 e(6) p by blast
  from e 1 2 3 4 show ?thesis by (intro conjI)
qed

text \<open>
  Claim C7 as stated fails: the key is not held from process start.  After a bootstrap
  that generated the key files, the same call of \<^verbatim>\<open>signPayload\<close> returns a package,
  fails with \<^verbatim>\<open>ENOENT\<close> once the private key file has been removed, and signs with
  another key once the file has been replaced.
\<close>

theorem signPayload_io_counterexample:
  "snd (key_bootstrap demo_crypto 42 [[] \<mapsto> Directory]) = None
   \<and> signPayload demo_crypto (fst (key_bootstrap demo_crypto 42 [[] \<mapsto> Directory]))
        ''t'' (JObject [(''a'', JString ''x'')])
      = Inr \<lparr>payload = JObject [(''a'', JString ''x'')],
              signature = ''NDJ7CiAgImEiOiAieCIKfQ=='', signed_at = ''t''\<rparr>
   \<and> signPayload demo_crypto
        ((fst (key_bootstrap demo_crypto 42 [[] \<mapsto> Directory]))(PRIVATE_PEM := None))
        ''t'' (JObject [(''a'', JString ''x'')])
      = Inl ENOENT
   \<and> signPayload demo_crypto
        ((fst (key_bootstrap demo_crypto 42 [[] \<mapsto> Directory]))(PRIVATE_PEM \<mapsto> File ''7''))
        ''t'' (JObject [(''a'', JString ''x'')])
      = Inr \<lparr>payload = JObject [(''a'', JString ''x'')],
              signature = ''N3sKICAiYSI6ICJ4Igp9'', signed_at = ''t''\<rparr>"
  by code_simp

text \<open>
  Claim C8 (key bootstrap).  When both key files exist, the bootstrap leaves them as they
  are and does not depend on the key generator.  When one of them is missing and the
  bootstrap completes, both files hold the halves of the pair generated with modulus
  length 2048.  After a bootstrap that completed, a second one changes nothing and
  completes, whatever its generator and entropy.  The bootstrap completes when the server
  directory exists, \<^verbatim>\<open>certs\<close> is absent or a directory, and neither key path is a
  directory.
\<close>

theorem key_bootstrap_once:
  "(existsSync fs PRIVATE_PEM \<and> existsSync fs PUBLIC_PEM \<longrightarrow>
      fst (key_bootstrap c e fs) PRIVATE_PEM = fs PRIVATE_PEM
    \<and> fst (key_bootstrap c e fs) PUBLIC_PEM = fs PUBLIC_PEM
    \<and> key_bootstrap c e fs = key_bootstrap c' e' fs)
   \<and> (\<not> (existsSync fs PRIVATE_PEM \<and> existsSync fs PUBLIC_PEM)
        \<and> key_bootstrap c e fs = (fs', None) \<longrightarrow>
      fs' PRIVATE_PEM = Some (File (fst (generateKeyPairSync c 2048 e)))
    \<and> fs' PUBLIC_PEM = Some (File (snd (generateKeyPairSync c 2048 e))))
   \<and> (key_bootstrap c e fs = (fs', None) \<longrightarrow> key_bootstrap c' e' fs' = (fs', None))
   \<and> (fs [] = Some Directory \<and> (fs CERTS_DIR = None \<or> fs CERTS_DIR = Some Directory)
        \<and> fs PRIVATE_PEM \<noteq> Some Directory \<and> fs PUBLIC_PEM \<noteq> Some Directory \<longrightarrow>
      snd (key_bootstrap c e fs) = None)"
proof (intro conjI impI)
  assume "existsSync fs PRIVATE_PEM \<and> existsSync fs PUBLIC_PEM"
  then have p: "existsSync fs PRIVATE_PEM" "existsSync fs PUBLIC_PEM" by simp_all
  show "fst (key_bootstrap c e fs) PRIVATE_PEM = fs PRIVATE_PEM"
    by (rule key_bootstrap_present(1) [OF p])
  show "fst (key_bootstrap c e fs) PUBLIC_PEM = fs PUBLIC_PEM"
    by (rule key_bootstrap_present(2) [OF p])
  show "key_bootstrap c e fs = key_bootstrap c' e' fs"
    by (rule key_bootstrap_present(3) [OF p])
next
  assume a: "\<not> (existsSync fs PRIVATE_PEM \<and> existsSync fs PUBLIC_PEM)
      \<and> key_bootstrap c e fs = (fs', None)"
  then show "fs' PRIVATE_PEM = Some (File (fst (generateKeyPairSync c 2048 e)))"
    using key_bootstrap_generates(1) by blast
  from a show "fs' PUBLIC_PEM = Some (File (snd (generateKeyPairSync c 2048 e)))"
    using key_bootstrap_generates(2) by blast
next
  assume "key_bootstrap c e fs = (fs', None)"
  then show "key_bootstrap c' e' fs' = (fs', None)"
    by (rule key_bootstrap_again)
next
  assume "fs [] = Some Directory \<and> (fs CERTS_DIR = None \<or> fs CERTS_DIR = Some Directory)
      \<and> fs PRIVATE_PEM \<noteq> Some Directory \<and> fs PUBLIC_PEM \<noteq> Some Directory"
  then show "snd (key_bootstrap c e fs) = None"
    using key_bootstrap_succeeds by blast
qed

theorem key_bootstrap_once_witness:
  "\<not> (existsSync fresh_install PRIVATE_PEM \<and> existsSync fresh_install PUBLIC_PEM)
   \<and> key_bootstrap demo_crypto 7 fresh_install = (after_bootstrap, None)
   \<and> after_bootstrap PRIVATE_PEM = Some (File (fst (generateKeyPairSync demo_crypto 2048 7)))
   \<and> after_bootstrap PUBLIC_PEM = Some (File (snd (generateKeyPairSync demo_crypto 2048 7)))
   \<and> existsSync after_bootstrap PRIVATE_PEM \<and> existsSync after_bootstrap PUBLIC_PEM
   \<and> key_bootstrap demo_crypto 8 after_bootstrap = (after_bootstrap, None)
   \<and> fst (key_bootstrap demo_crypto 8 after_bootstrap) PRIVATE_PEM = after_bootstrap PRIVATE_PEM"
proof -
  have gen: "generateKeyPairSync demo_crypto 2048 7 = (''7'', ''7'')"
    by code_simp
  have absent: "\<not> (existsSync fresh_install PRIVATE_PEM \<and> existsSync fresh_install PUBLIC_PEM)"
    by (simp add: existsSync_def fresh_install_def key_paths)
  have run: "key_bootstrap demo_crypto 7 fresh_install = (after_bootstrap, None)"
    by (simp add: key_bootstrap_def existsSync_def mkdirSync_def writeFileSync_def key_paths
        fresh_install_def after_bootstrap_def gen)
  have present: "existsSync after_bootstrap PRIVATE_PEM" "existsSync after_bootstrap PUBLIC_PEM"
    by (simp_all add: existsSync_def after_bootstrap_def)
  note t1 = key_bootstrap_once [of fresh_install demo_crypto 7 demo_crypto 8 after_bootstrap]
  note t2 = key_bootstrap_once [of after_bootstrap demo_crypto 8 demo_crypto 8 after_bootstrap]
  from absent run present t1 t2 show ?thesis by blast
qed

text \<open>
  Where the validation of line 142 answers: for a request body other than
  \<^verbatim>\<open>undefined\<close> and \<^verbatim>\<open>null\<close> in which \<^verbatim>\<open>query_text\<close> or \<^verbatim>\<open>answer_text\<close> is
  absent, the handler answers with status 400 and the error body, whatever the keys, the
  signer and the renderer.
\<close>

lemma certify_body_without_text:
  assumes "req_body \<noteq> JUndefined" and "req_body \<noteq> JNull"
    and "Get req_body ''query_text'' = JUndefined \<or> Get req_body ''answer_text'' = JUndefined"
  shows "certify c lib fs clk req_body
       = \<lparr>status = 400, body = ErrorJson ''query_text and answer_text required'' None\<rparr>"
  using assms by (auto simp: certify_def)

text \<open>
  Claim C9 (validation), evaluated where it fails.  A request without a body has neither
  \<^verbatim>\<open>query_text\<close> nor \<^verbatim>\<open>answer_text\<close>; where the body parser leaves \<^verbatim>\<open>req.body\<close>
  \<^verbatim>\<open>undefined\<close>, the destructuring of line 141 throws before the validation of line 142
  is reached, and the handler answers with status 500 and the body of the \<^verbatim>\<open>catch\<close>
  block instead of status 400, whatever the keys, the signer and the renderer.
\<close>

theorem certify_without_body:
  "certify c lib fs clk JUndefined
     = \<lparr>status = 500, body = ErrorJson ''certify failed'' (Some TypeError)\<rparr>"
  by (simp add: certify_def)

text \<open>
  Claim C10 (concrete scenario).  Under the idealised signature scheme, with the key pair
  in the key files: the payload of the scenario is signed; with \<^verbatim>\<open>answer_text\<close>
  changed to \<^verbatim>\<open>Sow before monsoon.\<close> verification returns \<^verbatim>\<open>false\<close> against the
  original signature, and \<^verbatim>\<open>true\<close> against the signature computed over the changed
  payload.
\<close>

theorem concrete_scenario:
  assumes priv: "readFileSync fs PRIVATE_PEM = Inr privateKey"
    and pub: "readFileSync fs PUBLIC_PEM = Inr publicKey"
    and ideal: "ideal_keypair c privateKey publicKey"
  shows "\<exists>signed fresh.
           signPayload c fs now (scenario_payload ''Sow after first monsoon rain.'') = Inr signed
         \<and> verifySignature c fs
              (signed\<lparr>payload := scenario_payload ''Sow before monsoon.''\<rparr>) = Inr False
         \<and> signPayload c fs now' (scenario_payload ''Sow before monsoon.'') = Inr fresh
         \<and> verifySignature c fs
              \<lparr>payload = scenario_payload ''Sow before monsoon.'',
               signature = signature fresh, signed_at = signed_at signed\<rparr> = Inr True"
proof -
  let ?P0 = "scenario_payload ''Sow after first monsoon rain.''"
  let ?P1 = "scenario_payload ''Sow before monsoon.''"
  obtain d0 where d0: "canonical_data ?P0 = Inr (Some d0)"
    using canonical_data_cases [of ?P0] by (auto simp: scenario_payload_def)
  obtain d1 where d1: "canonical_data ?P1 = Inr (Some d1)"
    using canonical_data_cases [of ?P1] by (auto simp: scenario_payload_def)
  from d0 d1 scenario_texts_differ have ne: "d1 \<noteq> d0" by auto
  from ideal obtain sig0 sig1 where sig0: "rsa_sign c privateKey d0 = Inr sig0"
    and sig1: "rsa_sign c privateKey d1 = Inr sig1"
    unfolding ideal_keypair_def by metis
  from ideal have "inj (rsa_sign c privateKey)" by (simp add: ideal_keypair_def)
  with ne sig0 have forged: "rsa_sign c privateKey d1 \<noteq> Inr sig0"
    by (metis injD)
  let ?signed = "\<lparr>payload = ?P0, signature = base64_encode sig0, signed_at = now\<rparr>"
  let ?fresh = "\<lparr>payload = ?P1, signature = base64_encode sig1, signed_at = now'\<rparr>"
  have 1: "signPayload c fs now ?P0 = Inr ?signed"
    by (simp add: signPayload_def d0 priv sig0)
  have 2: "verifySignature c fs (?signed\<lparr>payload := ?P1\<rparr>) = Inr False"
    using forged by (simp add: verify_ideal [OF pub ideal, of _ d1] d1 base64_decode_encode)
  have 3: "signPayload c fs now' ?P1 = Inr ?fresh"
    by (simp add: signPayload_def d1 priv sig1)
  have 4: "verifySignature c fs
      \<lparr>payload = ?P1, signature = signature ?fresh, signed_at = signed_at ?signed\<rparr> = Inr True"
    by (simp add: verify_ideal [OF pub ideal, of _ d1] d1 base64_decode_encode sig1)
  from 1 2 3 4 show ?thesis by blast
qed

theorem concrete_scenario_witness:
  "ideal_keypair demo_crypto ''42'' ''42''
   \<and> (\<exists>signed fresh.
           signPayload demo_crypto demo_fs ''t'' (scenario_payload ''Sow after first monsoon rain.'') = Inr signed
         \<and> verifySignature demo_crypto demo_fs
              (signed\<lparr>payload := scenario_payload ''Sow before monsoon.''\<rparr>) = Inr False
         \<and> signPayload demo_crypto demo_fs ''u'' (scenario_payload ''Sow before monsoon.'') = Inr fresh
         \<and> verifySignature demo_crypto demo_fs
              \<lparr>payload = scenario_payload ''Sow before monsoon.'',
               signature = signature fresh, signed_at = signed_at signed\<rparr> = Inr True)"
  using concrete_scenario [OF demo_files demo_ideal, of "''t''" "''u''"] demo_ideal [of "''42''"]
  by blast

end
